theory Spec2Isabelle
  imports Main
begin

section \<open>The engine of the CocoMUD client (\<open>src/game.py\<close>)\<close>

text \<open>
  The module defines the enumeration \<open>Level\<close>, the log formatter \<open>CustomFormatter\<close> and the
  class \<open>GameEngine\<close> with the methods \<open>create_logger\<close>, \<open>load\<close>,
  \<open>open\<close> and \<open>open_help\<close>. The methods mutate objects that are shared by reference
  (the engine, the worlds, the clients, the loggers of Python's \<open>logging\<close> module), so the
  model is an explicit store: every class is a record of its attributes, every object lives in
  the store under a reference, and a method takes the store and returns the outcome together
  with the store it leaves behind. An exception is the outcome \<open>Inl e\<close>; the store returned
  with it holds the assignments made before the exception was raised, as in Python.
\<close>

subsection \<open>Values, exceptions and references\<close>

datatype pyval = PyNone | PyBool bool | PyInt int | PyStr string

datatype error = KeyError string | IOError string | Exception string

type_synonym engine_ref = nat
type_synonym world_ref = nat
type_synonym client_ref = nat
type_synonym sharp_ref = nat

text \<open>
  \<open>logging.getLogger(name)\<close> keeps one \<open>Logger\<close> object for each name, so the name
  is the reference of the logger.
\<close>

type_synonym logger_ref = string

subsection \<open>\<open>class Level(Enum)\<close>\<close>

datatype Level = Level_engine | Level_world | Level_character | Level_category

fun Level_value :: "Level \<Rightarrow> int" where
  "Level_value Level_engine = 1"
| "Level_value Level_world = 2"
| "Level_value Level_character = 3"
| "Level_value Level_category = 4"

subsection \<open>The part of the \<open>logging\<close> module that the engine uses\<close>

definition logging_NOTSET :: int where "logging_NOTSET = 0"
definition logging_DEBUG :: int where "logging_DEBUG = 10"
definition logging_INFO :: int where "logging_INFO = 20"

text \<open>\<open>CustomFormatter(fmt)\<close> is a \<open>logging.Formatter\<close> built from a format string.\<close>

datatype Formatter = CustomFormatter string

text \<open>
  A handler is a stream handler (standard error) or a file handler with its file name and
  encoding. A new handler has the level \<open>NOTSET\<close> and no formatter; \<open>setLevel\<close> and
  \<open>setFormatter\<close> assign the two attributes.
\<close>

datatype handler_kind = Stream | File string string

record Handler =
  h_kind :: handler_kind
  h_level :: int
  h_formatter :: "Formatter option"

definition new_Handler :: "handler_kind \<Rightarrow> Handler" where
  "new_Handler k = \<lparr>h_kind = k, h_level = logging_NOTSET, h_formatter = None\<rparr>"

definition Handler_setLevel :: "int \<Rightarrow> Handler \<Rightarrow> Handler" where
  "Handler_setLevel lvl h = h\<lparr>h_level := lvl\<rparr>"

definition Handler_setFormatter :: "Formatter \<Rightarrow> Handler \<Rightarrow> Handler" where
  "Handler_setFormatter f h = h\<lparr>h_formatter := Some f\<rparr>"

record Logger =
  l_level :: int
  l_handlers :: "Handler list"

subsection \<open>The objects of the engine\<close>

text \<open>
  Modelled from the spec: the class \<open>Settings\<close> belongs to \<open>config.py\<close>, which is missing
  from the sources. Sections 3 and 4.2 of the specification describe its data: four layers of
  overrides, one for each level, and the declared defaults.
\<close>

record Settings =
  layers :: "Level \<Rightarrow> string \<rightharpoonup> pyval"
  defaults :: "string \<rightharpoonup> pyval"

text \<open>
  The attributes of \<open>GameEngine\<close>. \<open>loggers\<close> is the dictionary of the channels created so
  far, keyed by their physical name. \<open>worlds\<close> is a dictionary that \<open>load\<close> iterates over,
  so it is an association list in insertion order. \<open>TTS_on\<close> and \<open>TTS_outside\<close> do not
  exist before \<open>load\<close> has assigned them.
\<close>

record GameEngine =
  loggers :: "string \<rightharpoonup> logger_ref"
  logger :: logger_ref
  settings :: Settings
  worlds :: "(string \<times> world_ref) list"
  default_world :: "world_ref option"
  level :: Level
  TTS_on :: "pyval option"
  TTS_outside :: "pyval option"

text \<open>
  The attributes of a world and of a client that the engine assigns. \<open>None\<close> is an attribute
  that is unset.
\<close>

record World =
  w_client :: "client_ref option"
  w_sharp_engine :: "sharp_ref option"
  w_engine :: "engine_ref option"

record Client =
  c_sharp_engine :: "sharp_ref option"

text \<open>
  The store. \<open>logging_loggers\<close> is the logger dictionary of the \<open>logging\<close> module, which
  is global to the process. \<open>fs_files\<close> are the paths that exist in the file system and
  \<open>fs_denied\<close> the paths that cannot be opened for writing. \<open>log_calls\<close> records every
  logging call: the logger, the severity and the message. \<open>started_files\<close> are the files
  that the desktop has been asked to open.
\<close>

record state =
  engines :: "engine_ref \<Rightarrow> GameEngine"
  world_objs :: "world_ref \<Rightarrow> World"
  client_objs :: "client_ref \<Rightarrow> Client"
  logging_loggers :: "string \<rightharpoonup> Logger"
  fs_files :: "string set"
  fs_denied :: "string set"
  log_calls :: "(logger_ref \<times> int \<times> string) list"
  started_files :: "string list"

text \<open>
  The collaborators whose code is outside \<open>game.py\<close> are parameters of the model:
  \<open>os.path.join\<close> (its result depends on the platform), the constructors
  \<open>GUIClient(host, port, engine=self, world=world)\<close> and
  \<open>SharpScript(self, client, world)\<close>, the methods \<open>load\<close> and \<open>get_language\<close> of the
  settings, and \<open>os.startfile\<close>. The constructors, \<open>load\<close> and \<open>os.startfile\<close> may raise
  and may change the store in any way; \<open>get_language\<close> reads the settings and may raise.
\<close>

record ext =
  os_path_join :: "string \<Rightarrow> string list \<Rightarrow> string"
  GUIClient :: "string \<Rightarrow> int \<Rightarrow> engine_ref \<Rightarrow> world_ref \<Rightarrow> state \<Rightarrow> (error + client_ref) \<times> state"
  SharpScript :: "engine_ref \<Rightarrow> client_ref \<Rightarrow> world_ref \<Rightarrow> state \<Rightarrow> (error + sharp_ref) \<times> state"
  Settings_load :: "engine_ref \<Rightarrow> state \<Rightarrow> (error + unit) \<times> state"
  Settings_get_language :: "Settings \<Rightarrow> error + string"
  os_startfile :: "string \<Rightarrow> state \<Rightarrow> (error + unit) \<times> state"

text \<open>
  \<open>posixpath.join\<close>, the \<open>os.path.join\<close> of a POSIX platform, for the concrete examples:
  a component that starts with a slash replaces what precedes it.
\<close>

fun posixpath_join :: "string \<Rightarrow> string list \<Rightarrow> string" where
  "posixpath_join path [] = path"
| "posixpath_join path (b # p) =
     (if take 1 b = ''/'' then posixpath_join b p
      else if path = [] then posixpath_join (path @ b) p
      else if last path = CHR ''/'' then posixpath_join (path @ b) p
      else posixpath_join (path @ ''/'' @ b) p)"

subsection \<open>Attribute assignment and logging calls\<close>

definition update_engine :: "engine_ref \<Rightarrow> (GameEngine \<Rightarrow> GameEngine) \<Rightarrow> state \<Rightarrow> state" where
  "update_engine self f s = s\<lparr>engines := (engines s)(self := f (engines s self))\<rparr>"

definition update_world :: "world_ref \<Rightarrow> (World \<Rightarrow> World) \<Rightarrow> state \<Rightarrow> state" where
  "update_world w f s = s\<lparr>world_objs := (world_objs s)(w := f (world_objs s w))\<rparr>"

definition update_client :: "client_ref \<Rightarrow> (Client \<Rightarrow> Client) \<Rightarrow> state \<Rightarrow> state" where
  "update_client c f s = s\<lparr>client_objs := (client_objs s)(c := f (client_objs s c))\<rparr>"

text \<open>\<open>logger.info(msg)\<close> and \<open>logger.debug(msg)\<close>.\<close>

definition Logger_info :: "logger_ref \<Rightarrow> string \<Rightarrow> state \<Rightarrow> state" where
  "Logger_info lg msg s = s\<lparr>log_calls := log_calls s @ [(lg, logging_INFO, msg)]\<rparr>"

definition Logger_debug :: "logger_ref \<Rightarrow> string \<Rightarrow> state \<Rightarrow> state" where
  "Logger_debug lg msg s = s\<lparr>log_calls := log_calls s @ [(lg, logging_DEBUG, msg)]\<rparr>"

text \<open>
  \<open>logging.getLogger(name)\<close> returns the logger of that name and creates it first when the
  module does not have it yet: level \<open>NOTSET\<close>, no handler.
\<close>

definition logging_getLogger :: "string \<Rightarrow> state \<Rightarrow> state" where
  "logging_getLogger name s =
     (case logging_loggers s name of
        Some _ \<Rightarrow> s
      | None \<Rightarrow> s\<lparr>logging_loggers := (logging_loggers s)
                    (name \<mapsto> \<lparr>l_level = logging_NOTSET, l_handlers = []\<rparr>)\<rparr>)"

definition update_logger :: "logger_ref \<Rightarrow> (Logger \<Rightarrow> Logger) \<Rightarrow> state \<Rightarrow> state" where
  "update_logger lg f s =
     (case logging_loggers s lg of
        None \<Rightarrow> s
      | Some l \<Rightarrow> s\<lparr>logging_loggers := (logging_loggers s)(lg \<mapsto> f l)\<rparr>)"

definition Logger_setLevel :: "logger_ref \<Rightarrow> int \<Rightarrow> state \<Rightarrow> state" where
  "Logger_setLevel lg lvl = update_logger lg (\<lambda>l. l\<lparr>l_level := lvl\<rparr>)"

text \<open>
  \<open>logger.addHandler(handler)\<close> appends the handler unless that very object is attached
  already; \<open>create_logger\<close> only ever attaches a handler it has just constructed.
\<close>

definition Logger_addHandler :: "logger_ref \<Rightarrow> Handler \<Rightarrow> state \<Rightarrow> state" where
  "Logger_addHandler lg h = update_logger lg (\<lambda>l. l\<lparr>l_handlers := l_handlers l @ [h]\<rparr>)"

text \<open>
  \<open>logging.FileHandler(filename, encoding="utf-8")\<close> opens the file for appending when it
  is constructed: the call raises when the file cannot be opened, and the file exists
  afterwards otherwise.
\<close>

definition logging_FileHandler :: "string \<Rightarrow> string \<Rightarrow> state \<Rightarrow> (error + Handler) \<times> state" where
  "logging_FileHandler filename encoding s =
     (if filename \<in> fs_denied s then (Inl (IOError filename), s)
      else (Inr (new_Handler (File filename encoding)),
            s\<lparr>fs_files := insert filename (fs_files s)\<rparr>))"

subsection \<open>\<open>GameEngine.create_logger\<close>\<close>

text \<open>
  \<open>filename=None\<close> is the default of the second parameter. \<open>not name\<close> holds for the empty
  string, and \<open>filename or d\<close> is \<open>d\<close> for \<open>None\<close> and for the empty string.
  \<open>resolve_channel\<close> is the first statement of the method: it yields the file name and the
  physical name of the channel.
\<close>

definition resolve_channel :: "ext \<Rightarrow> string \<Rightarrow> string option \<Rightarrow> string \<times> string" where
  "resolve_channel x name0 filename0 =
     (if name0 = [] then (os_path_join x ''logs'' [''main.log''], ''cocomud'')
      else ((case filename0 of
               None \<Rightarrow> os_path_join x ''logs'' [name0 @ ''.log'']
             | Some f \<Rightarrow> if f = [] then os_path_join x ''logs'' [name0 @ ''.log''] else f),
            ''cocomud.'' @ name0))"

definition create_logger ::
  "ext \<Rightarrow> engine_ref \<Rightarrow> string \<Rightarrow> string option \<Rightarrow> state \<Rightarrow> (error + logger_ref) \<times> state" where
  "create_logger x self name0 filename0 s =
     (let (filename, name) = resolve_channel x name0 filename0
      in case loggers (engines s self) name of
           Some lg \<Rightarrow> (Inr lg, s)
         | None \<Rightarrow>
             (let lg = name;
                  s1 = logging_getLogger name s;
                  s2 = Logger_setLevel lg logging_DEBUG s1;
                  formatter = CustomFormatter ''%(hour)02d:%(minute)02d [%(levelname)s] %(message)s'';
                  s3 = (if name = ''cocomud''
                        then Logger_addHandler lg
                               (Handler_setLevel logging_INFO (new_Handler Stream)) s2
                        else s2)
              in case logging_FileHandler filename ''utf-8'' s3 of
                   (Inl e, s4) \<Rightarrow> (Inl e, s4)
                 | (Inr handler, s4) \<Rightarrow>
                     (let handler' = Handler_setFormatter formatter
                                       (Handler_setLevel logging_DEBUG handler);
                          s5 = Logger_addHandler lg handler' s4;
                          s6 = update_engine self
                                 (\<lambda>e. e\<lparr>loggers := (loggers e)(name \<mapsto> lg)\<rparr>) s5
                      in (Inr lg, s6))))"

subsection \<open>The settings store\<close>

text \<open>
  Modelled from the spec: the class \<open>Settings\<close> of \<open>config.py\<close> is missing from the
  sources. Section 4.2 of the specification describes the lookup \<open>get(key)\<close>, written
  \<open>self.settings[key]\<close> in \<open>game.py\<close>: it "resolves by level precedence
  category > character > world > engine (most specific wins); if no layer defines key, return
  the declared default for that key; if the key has no declared default, fail with a
  KeyError-class error". Section 3 says that resolving a key "walks the stack from most
  specific to most general and returns the first layer that defines it".
\<close>

definition levels_by_specificity :: "Level list" where
  "levels_by_specificity = [Level_category, Level_character, Level_world, Level_engine]"

fun first_defining :: "Level list \<Rightarrow> (Level \<Rightarrow> string \<rightharpoonup> pyval) \<Rightarrow> string \<Rightarrow> pyval option" where
  "first_defining [] ls key = None"
| "first_defining (l # rest) ls key =
     (case ls l key of Some v \<Rightarrow> Some v | None \<Rightarrow> first_defining rest ls key)"

definition Settings_get :: "Settings \<Rightarrow> string \<Rightarrow> error + pyval" where
  "Settings_get st key =
     (case first_defining levels_by_specificity (layers st) key of
        Some v \<Rightarrow> Inr v
      | None \<Rightarrow> (case defaults st key of
                   Some v \<Rightarrow> Inr v
                 | None \<Rightarrow> Inl (KeyError key)))"

subsection \<open>\<open>GameEngine.load\<close>\<close>

text \<open>The body of the loop \<open>for world in self.worlds.values(): world.engine = self\<close>.\<close>

definition set_engine :: "engine_ref \<Rightarrow> state \<Rightarrow> world_ref \<Rightarrow> state" where
  "set_engine self s world = update_world world (\<lambda>w. w\<lparr>w_engine := Some self\<rparr>) s"

definition load :: "ext \<Rightarrow> engine_ref \<Rightarrow> state \<Rightarrow> (error + unit) \<times> state" where
  "load x self s =
     (let s0 = Logger_info (logger (engines s self)) ''Loading the user's configuration...'' s
      in case Settings_load x self s0 of
           (Inl e, s1) \<Rightarrow> (Inl e, s1)
         | (Inr _, s1) \<Rightarrow>
             (case Settings_get (settings (engines s1 self)) ''options.TTS.on'' of
                Inl e \<Rightarrow> (Inl e, s1)
              | Inr on \<Rightarrow>
                  (let s2 = update_engine self (\<lambda>e. e\<lparr>TTS_on := Some on\<rparr>) s1
                   in case Settings_get (settings (engines s2 self)) ''options.TTS.outside'' of
                        Inl e \<Rightarrow> (Inl e, s2)
                      | Inr outside \<Rightarrow>
                          (let s3 = update_engine self
                                      (\<lambda>e. e\<lparr>TTS_outside := Some outside\<rparr>) s2
                           in (Inr (), foldl (set_engine self) s3
                                         (map snd (worlds (engines s3 self))))))))"

subsection \<open>\<open>GameEngine.open\<close>\<close>

text \<open>
  \<open>str.format\<close> renders the port, an integer, as \<open>str\<close> does: in decimal, with a minus
  sign when it is negative.
\<close>

definition decimal_digit :: "nat \<Rightarrow> char" where
  "decimal_digit d = ''0123456789'' ! (d mod 10)"

function str_nat :: "nat \<Rightarrow> string" where
  "str_nat n =
     (if n div 10 = 0 then [decimal_digit n] else str_nat (n div 10) @ [decimal_digit n])"
  by pat_completeness auto
termination
  by (relation "measure id") auto

declare str_nat.simps [simp del]

definition str_int :: "int \<Rightarrow> string" where
  "str_int i = (if 0 \<le> i then str_nat (nat i) else CHR ''-'' # str_nat (nat (- i)))"

text \<open>
  The two constructions come first and the three assignments after them. \<open>open\<close> is a
  keyword of Isabelle, hence the prime.
\<close>

definition open' ::
  "ext \<Rightarrow> engine_ref \<Rightarrow> string \<Rightarrow> int \<Rightarrow> world_ref \<Rightarrow> state \<Rightarrow> (error + client_ref) \<times> state" where
  "open' x self host port world s =
     (let s0 = Logger_info (logger (engines s self))
                 (''Creating a client for '' @ host @ '':'' @ str_int port) s
      in case GUIClient x host port self world s0 of
           (Inl e, s1) \<Rightarrow> (Inl e, s1)
         | (Inr client, s1) \<Rightarrow>
             (case SharpScript x self client world s1 of
                (Inl e, s2) \<Rightarrow> (Inl e, s2)
              | (Inr sharp_engine, s2) \<Rightarrow>
                  (let s3 = update_world world (\<lambda>w. w\<lparr>w_client := Some client\<rparr>) s2;
                       s4 = update_client client
                              (\<lambda>c. c\<lparr>c_sharp_engine := Some sharp_engine\<rparr>) s3;
                       s5 = update_world world
                              (\<lambda>w. w\<lparr>w_sharp_engine := Some sharp_engine\<rparr>) s4
                   in (Inr client, s5))))"

subsection \<open>\<open>GameEngine.open_help\<close>\<close>

definition os_path_exists :: "string \<Rightarrow> state \<Rightarrow> bool" where
  "os_path_exists path s \<longleftrightarrow> path \<in> fs_files s"

definition open_help :: "ext \<Rightarrow> engine_ref \<Rightarrow> string \<Rightarrow> state \<Rightarrow> (error + unit) \<times> state" where
  "open_help x self name s =
     (case Settings_get_language x (settings (engines s self)) of
        Inl e \<Rightarrow> (Inl e, s)
      | Inr lang \<Rightarrow>
          (let filename = name @ ''.html'';
               path = os_path_join x ''doc'' [lang, filename]
           in if os_path_exists path s
              then os_startfile x path
                     (Logger_debug (logger (engines s self))
                        (''Open the help file for '' @ name @ '' (lang='' @ lang @ '')'') s)
              else (let path = os_path_join x ''doc'' [''en'', filename]
                    in if os_path_exists path s
                       then os_startfile x path
                              (Logger_debug (logger (engines s self))
                                 (''Open the help file for '' @ name @ '' (lang=en)'') s)
                       else (Inr (),
                             Logger_debug (logger (engines s self))
                               (''The documentation for the '' @ name @ '' help file ''
                                @ ''cannot be found, either using lang='' @ lang
                                @ '' or lang=en'') s))))"

subsection \<open>Prefixes of the methods and frame conditions, for the statements below\<close>

text \<open>
  The first three statements of \<open>open\<close>: the logging call and the two constructions, with
  the two handles they return.
\<close>

definition construct ::
  "ext \<Rightarrow> engine_ref \<Rightarrow> string \<Rightarrow> int \<Rightarrow> world_ref \<Rightarrow> state
     \<Rightarrow> (error + client_ref \<times> sharp_ref) \<times> state" where
  "construct x self host port world s =
     (let s0 = Logger_info (logger (engines s self))
                 (''Creating a client for '' @ host @ '':'' @ str_int port) s
      in case GUIClient x host port self world s0 of
           (Inl e, s1) \<Rightarrow> (Inl e, s1)
         | (Inr client, s1) \<Rightarrow>
             (case SharpScript x self client world s1 of
                (Inl e, s2) \<Rightarrow> (Inl e, s2)
              | (Inr sharp_engine, s2) \<Rightarrow> (Inr (client, sharp_engine), s2)))"

text \<open>The first two statements of \<open>load\<close>: the logging call and \<open>self.settings.load()\<close>.\<close>

definition load_settings :: "ext \<Rightarrow> engine_ref \<Rightarrow> state \<Rightarrow> (error + unit) \<times> state" where
  "load_settings x self s =
     Settings_load x self
       (Logger_info (logger (engines s self)) ''Loading the user's configuration...'' s)"

text \<open>
  What a statement about \<open>open\<close> has to ask of the two constructors, whose code is not
  at hand: that a call leaves the \<open>client\<close> and \<open>sharp_engine\<close> attributes of a world as
  they are, and that it leaves the world dictionary, the settings and the level of an engine
  as they are.
\<close>

definition keeps_wiring :: "(state \<Rightarrow> 'a \<times> state) \<Rightarrow> world_ref \<Rightarrow> bool" where
  "keeps_wiring f w \<longleftrightarrow>
     (\<forall>s. w_client (world_objs (snd (f s)) w) = w_client (world_objs s w)
        \<and> w_sharp_engine (world_objs (snd (f s)) w) = w_sharp_engine (world_objs s w))"

definition keeps_engine :: "(state \<Rightarrow> 'a \<times> state) \<Rightarrow> engine_ref \<Rightarrow> bool" where
  "keeps_engine f self \<longleftrightarrow>
     (\<forall>s. worlds (engines (snd (f s)) self) = worlds (engines s self)
        \<and> settings (engines (snd (f s)) self) = settings (engines s self)
        \<and> level (engines (snd (f s)) self) = level (engines s self))"

subsection \<open>A concrete store and concrete collaborators\<close>

text \<open>
  An engine before its first channel exists, with two worlds and declared defaults for the
  two options that \<open>load\<close> reads; a store in which nothing is open yet; collaborators on a
  POSIX platform, with constructors that return the client handle \<open>10 + world\<close> and the
  scripting handle \<open>20 + world\<close>, a French user and a desktop that opens every file.
\<close>

definition engine0 :: GameEngine where
  "engine0 =
     \<lparr>loggers = Map.empty, logger = ''cocomud'',
      settings = \<lparr>layers = (\<lambda>_. Map.empty),
                  defaults = [''options.TTS.on'' \<mapsto> PyBool True,
                              ''options.TTS.outside'' \<mapsto> PyBool False]\<rparr>,
      worlds = [(''vanciamud'', 1), (''coco'', 2)], default_world = None,
      level = Level_engine, TTS_on = None, TTS_outside = None\<rparr>"

definition state0 :: state where
  "state0 =
     \<lparr>engines = (\<lambda>_. engine0),
      world_objs = (\<lambda>_. \<lparr>w_client = None, w_sharp_engine = None, w_engine = None\<rparr>),
      client_objs = (\<lambda>_. \<lparr>c_sharp_engine = None\<rparr>),
      logging_loggers = Map.empty, fs_files = {''doc/en/macros.html''}, fs_denied = {},
      log_calls = [], started_files = []\<rparr>"

definition ext0 :: ext where
  "ext0 =
     \<lparr>os_path_join = posixpath_join,
      GUIClient = (\<lambda>host port self world s.
                     (Inr (10 + world),
                      update_client (10 + world) (\<lambda>_. \<lparr>c_sharp_engine = None\<rparr>) s)),
      SharpScript = (\<lambda>self client world s. (Inr (20 + world), s)),
      Settings_load = (\<lambda>self s. (Inr (), s)),
      Settings_get_language = (\<lambda>st. Inr ''fr''),
      os_startfile = (\<lambda>path s. (Inr (), s\<lparr>started_files := started_files s @ [path]\<rparr>))\<rparr>"

text \<open>The same collaborators, but the construction of the scripting engine raises.\<close>

definition ext_sharp_raises :: ext where
  "ext_sharp_raises =
     ext0\<lparr>SharpScript := (\<lambda>self client world s. (Inl (Exception ''SharpScript''), s))\<rparr>"

text \<open>The store after the world 1 has been opened.\<close>

definition state1 :: state where
  "state1 = snd (open' ext0 0 ''mud.example.org'' 4000 1 state0)"

text \<open>A store whose engine has no declared default for \<open>options.TTS.outside\<close>.\<close>

definition state_undeclared :: state where
  "state_undeclared =
     update_engine 0
       (\<lambda>e. e\<lparr>settings := \<lparr>layers = (\<lambda>_. Map.empty),
                             defaults = [''options.TTS.on'' \<mapsto> PyBool True]\<rparr>\<rparr>) state0"

text \<open>
  Settings with the overrides \<open>engine: key = A\<close>, \<open>world: key = B\<close> and
  \<open>character: key = C\<close>, and no declared default.
\<close>

definition settings_abc :: Settings where
  "settings_abc =
     \<lparr>layers = (\<lambda>l. case l of
                   Level_engine \<Rightarrow> [''key'' \<mapsto> PyStr ''A'']
                 | Level_world \<Rightarrow> [''key'' \<mapsto> PyStr ''B'']
                 | Level_character \<Rightarrow> [''key'' \<mapsto> PyStr ''C'']
                 | Level_category \<Rightarrow> Map.empty),
      defaults = Map.empty\<rparr>"

section \<open>Properties\<close>

subsection \<open>The logging channels\<close>

lemma resolve_channel_name:
  "snd (resolve_channel x name f) = (if name = [] then ''cocomud'' else ''cocomud.'' @ name)"
  by (simp add: resolve_channel_def)

lemma create_logger_cached:
  "loggers (engines s self) (snd (resolve_channel x name f)) = Some lg
   \<Longrightarrow> create_logger x self name f s = (Inr lg, s)"
  by (cases "resolve_channel x name f") (simp add: create_logger_def)

lemma create_logger_caches:
  assumes "create_logger x self name f s = (Inr lg, s1)"
  shows "loggers (engines s1 self) (snd (resolve_channel x name f)) = Some lg"
  using assms
  by (cases "resolve_channel x name f")
     (auto simp: create_logger_def Let_def update_engine_def logging_FileHandler_def
           split: prod.splits option.splits sum.splits if_splits)

lemma getLogger_bare:
  assumes "case logging_loggers s n of None \<Rightarrow> True | Some l \<Rightarrow> l_handlers l = []"
  shows "\<exists>lv. logging_loggers (logging_getLogger n s) n = Some \<lparr>l_level = lv, l_handlers = []\<rparr>"
proof (cases "logging_loggers s n")
  case None
  then show ?thesis by (simp add: logging_getLogger_def)
next
  case (Some l)
  with assms have "l = \<lparr>l_level = l_level l, l_handlers = []\<rparr>" by (cases l) simp
  with Some show ?thesis by (simp add: logging_getLogger_def) metis
qed

lemma channel0:
  "fst (create_logger ext0 0 ''sharp'' None state0) = Inr ''cocomud.sharp''"
  by (simp add: create_logger_def resolve_channel_def Let_def logging_FileHandler_def
        logging_getLogger_def Logger_setLevel_def update_logger_def
        ext0_def state0_def engine0_def split: prod.splits)

text \<open>
  C2. A second call of \<open>create_logger\<close> for the same name, whatever file name it is given,
  returns the channel that the first call returned and leaves the whole store as the first
  call left it: the handlers of the channel are those it had, none is attached again.
\<close>

theorem create_logger_idempotent:
  assumes "create_logger x self name f s = (Inr lg, s1)"
  shows "create_logger x self name f' s1 = (Inr lg, s1) \<and>
         logging_loggers (snd (create_logger x self name f' s1)) lg = logging_loggers s1 lg"
proof -
  have "loggers (engines s1 self) (snd (resolve_channel x name f)) = Some lg"
    using assms by (rule create_logger_caches)
  then have "loggers (engines s1 self) (snd (resolve_channel x name f')) = Some lg"
    by (simp add: resolve_channel_name)
  then have "create_logger x self name f' s1 = (Inr lg, s1)"
    by (rule create_logger_cached)
  then show ?thesis by simp
qed

theorem create_logger_idempotent_witness:
  "fst (create_logger ext0 0 ''sharp'' None state0) = Inr ''cocomud.sharp'' \<and>
   create_logger ext0 0 ''sharp'' (Some ''elsewhere.log'')
       (snd (create_logger ext0 0 ''sharp'' None state0)) =
     (Inr ''cocomud.sharp'', snd (create_logger ext0 0 ''sharp'' None state0))"
proof -
  have first: "create_logger ext0 0 ''sharp'' None state0 =
      (Inr ''cocomud.sharp'', snd (create_logger ext0 0 ''sharp'' None state0))"
    using channel0 by (simp add: prod_eq_iff)
  from create_logger_idempotent [OF first] channel0 show ?thesis by blast
qed

text \<open>
  C5. When the channel does not exist yet (the engine has not cached it, the \<open>logging\<close>
  module has attached no handler to its name) and its file can be opened, \<open>create_logger\<close>
  builds it as follows. For the empty name: the channel \<open>cocomud\<close>, level \<open>DEBUG\<close>, with
  a stream handler of level \<open>INFO\<close> and a file handler of level \<open>DEBUG\<close>, encoding UTF-8,
  on \<open>os.path.join("logs", "main.log")\<close>. For a name that is not empty: the channel
  \<open>cocomud.\<close> followed by the name, level \<open>DEBUG\<close>, with a file handler only, of level
  \<open>DEBUG\<close> and encoding UTF-8, on \<open>os.path.join("logs", name + ".log")\<close> unless a file
  name that is not empty is given, and on that file name otherwise.
\<close>

theorem create_logger_new_channel:
  assumes uncached: "loggers (engines s self) (snd (resolve_channel x name f)) = None"
      and bare: "case logging_loggers s (snd (resolve_channel x name f)) of
                   None \<Rightarrow> True | Some l \<Rightarrow> l_handlers l = []"
      and writable: "fst (resolve_channel x name f) \<notin> fs_denied s"
  shows "(name = [] \<longrightarrow>
            fst (create_logger x self name f s) = Inr ''cocomud'' \<and>
            logging_loggers (snd (create_logger x self name f s)) ''cocomud'' =
              Some \<lparr>l_level = logging_DEBUG,
                    l_handlers =
                      [\<lparr>h_kind = Stream, h_level = logging_INFO, h_formatter = None\<rparr>,
                       \<lparr>h_kind = File (os_path_join x ''logs'' [''main.log'']) ''utf-8'',
                        h_level = logging_DEBUG,
                        h_formatter = Some (CustomFormatter
                          ''%(hour)02d:%(minute)02d [%(levelname)s] %(message)s'')\<rparr>]\<rparr>) \<and>
         (name \<noteq> [] \<longrightarrow>
            fst (create_logger x self name f s) = Inr (''cocomud.'' @ name) \<and>
            logging_loggers (snd (create_logger x self name f s)) (''cocomud.'' @ name) =
              Some \<lparr>l_level = logging_DEBUG,
                    l_handlers =
                      [\<lparr>h_kind = File (case f of
                                         None \<Rightarrow> os_path_join x ''logs'' [name @ ''.log'']
                                       | Some g \<Rightarrow> if g = []
                                           then os_path_join x ''logs'' [name @ ''.log'']
                                           else g) ''utf-8'',
                        h_level = logging_DEBUG,
                        h_formatter = Some (CustomFormatter
                          ''%(hour)02d:%(minute)02d [%(levelname)s] %(message)s'')\<rparr>]\<rparr>)"
proof -
  obtain lv where lv:
    "logging_loggers (logging_getLogger (snd (resolve_channel x name f)) s)
       (snd (resolve_channel x name f)) = Some \<lparr>l_level = lv, l_handlers = []\<rparr>"
    using getLogger_bare [OF bare] by blast
  have den: "fs_denied (logging_getLogger n s) = fs_denied s" for n
    by (simp add: logging_getLogger_def split: option.splits)
  show ?thesis
  proof (cases "name = []")
    case True
    with uncached lv writable den [of "''cocomud''"] show ?thesis
      by (simp add: create_logger_def resolve_channel_def Let_def logging_FileHandler_def
            Logger_setLevel_def Logger_addHandler_def update_logger_def update_engine_def
            new_Handler_def Handler_setLevel_def Handler_setFormatter_def)
  next
    case False
    with uncached lv writable den [of "''cocomud.'' @ name"] show ?thesis
      by (simp add: create_logger_def resolve_channel_def Let_def logging_FileHandler_def
            Logger_setLevel_def Logger_addHandler_def update_logger_def update_engine_def
            new_Handler_def Handler_setLevel_def Handler_setFormatter_def split: option.splits)
  qed
qed

theorem create_logger_new_channel_witness:
  "logging_loggers (snd (create_logger ext0 0 '''' None state0)) ''cocomud'' =
     Some \<lparr>l_level = 10,
           l_handlers =
             [\<lparr>h_kind = Stream, h_level = 20, h_formatter = None\<rparr>,
              \<lparr>h_kind = File ''logs/main.log'' ''utf-8'', h_level = 10,
               h_formatter = Some (CustomFormatter
                 ''%(hour)02d:%(minute)02d [%(levelname)s] %(message)s'')\<rparr>]\<rparr> \<and>
   fst (create_logger ext0 0 ''sharp'' None state0) = Inr ''cocomud.sharp'' \<and>
   logging_loggers (snd (create_logger ext0 0 ''sharp'' None state0)) ''cocomud.sharp'' =
     Some \<lparr>l_level = 10,
           l_handlers =
             [\<lparr>h_kind = File ''logs/sharp.log'' ''utf-8'', h_level = 10,
               h_formatter = Some (CustomFormatter
                 ''%(hour)02d:%(minute)02d [%(levelname)s] %(message)s'')\<rparr>]\<rparr>"
  using create_logger_new_channel [of state0 0 ext0 "''''" None]
        create_logger_new_channel [of state0 0 ext0 "''sharp''" None]
  by (simp add: resolve_channel_def ext0_def state0_def engine0_def
        logging_DEBUG_def logging_INFO_def)

text \<open>
  C9. For the empty name the file name argument is ignored. For every \<open>f\<close>,
  \<open>create_logger("", f)\<close> is \<open>create_logger("")\<close>, outcome and store, and the file name it
  resolves is \<open>os.path.join("logs", "main.log")\<close>. When the root channel is not cached and
  that file can be opened, the call returns the channel \<open>cocomud\<close> and attaches to it, after
  the handlers that the logger of the \<open>logging\<close> module may have had, a stream handler and
  a file handler, and the file handler writes to \<open>os.path.join("logs", "main.log")\<close>,
  whatever \<open>f\<close> is. When that file cannot be opened, the call raises and attaches no file
  handler. A cached root channel is returned as it is.
\<close>

theorem create_logger_root_ignores_filename:
  "create_logger x self [] f s = create_logger x self [] None s \<and>
   fst (resolve_channel x [] f) = os_path_join x ''logs'' [''main.log''] \<and>
   (loggers (engines s self) ''cocomud'' = None \<and>
    os_path_join x ''logs'' [''main.log''] \<notin> fs_denied s \<longrightarrow>
      fst (create_logger x self [] f s) = Inr ''cocomud'' \<and>
      logging_loggers (snd (create_logger x self [] f s)) ''cocomud'' =
        Some \<lparr>l_level = logging_DEBUG,
              l_handlers =
                (case logging_loggers s ''cocomud'' of
                   None \<Rightarrow> []
                 | Some l \<Rightarrow> l_handlers l) @
                [\<lparr>h_kind = Stream, h_level = logging_INFO, h_formatter = None\<rparr>,
                 \<lparr>h_kind = File (os_path_join x ''logs'' [''main.log'']) ''utf-8'',
                  h_level = logging_DEBUG,
                  h_formatter = Some (CustomFormatter
                    ''%(hour)02d:%(minute)02d [%(levelname)s] %(message)s'')\<rparr>]\<rparr>) \<and>
   (loggers (engines s self) ''cocomud'' = None \<and>
    os_path_join x ''logs'' [''main.log''] \<in> fs_denied s \<longrightarrow>
      fst (create_logger x self [] f s) = Inl (IOError (os_path_join x ''logs'' [''main.log''])) \<and>
      logging_loggers (snd (create_logger x self [] f s)) ''cocomud'' =
        Some \<lparr>l_level = logging_DEBUG,
              l_handlers =
                (case logging_loggers s ''cocomud'' of
                   None \<Rightarrow> []
                 | Some l \<Rightarrow> l_handlers l) @
                [\<lparr>h_kind = Stream, h_level = logging_INFO, h_formatter = None\<rparr>]\<rparr>) \<and>
   (\<forall>lg. loggers (engines s self) ''cocomud'' = Some lg \<longrightarrow>
      create_logger x self [] f s = (Inr lg, s))"
proof -
  have same: "create_logger x self [] f s = create_logger x self [] None s"
    by (simp add: create_logger_def resolve_channel_def)
  have path: "fst (resolve_channel x [] f) = os_path_join x ''logs'' [''main.log'']"
    by (simp add: resolve_channel_def)
  have den: "fs_denied (logging_getLogger n s) = fs_denied s" for n
    by (simp add: logging_getLogger_def split: option.splits)
  have got: "logging_loggers (logging_getLogger ''cocomud'' s) ''cocomud'' =
      Some (case logging_loggers s ''cocomud'' of
              None \<Rightarrow> \<lparr>l_level = logging_NOTSET, l_handlers = []\<rparr>
            | Some l \<Rightarrow> l)"
    by (simp add: logging_getLogger_def split: option.splits)
  have created: "fst (create_logger x self [] f s) = Inr ''cocomud'' \<and>
      logging_loggers (snd (create_logger x self [] f s)) ''cocomud'' =
        Some \<lparr>l_level = logging_DEBUG,
              l_handlers =
                (case logging_loggers s ''cocomud'' of
                   None \<Rightarrow> []
                 | Some l \<Rightarrow> l_handlers l) @
                [\<lparr>h_kind = Stream, h_level = logging_INFO, h_formatter = None\<rparr>,
                 \<lparr>h_kind = File (os_path_join x ''logs'' [''main.log'']) ''utf-8'',
                  h_level = logging_DEBUG,
                  h_formatter = Some (CustomFormatter
                    ''%(hour)02d:%(minute)02d [%(levelname)s] %(message)s'')\<rparr>]\<rparr>"
    if "loggers (engines s self) ''cocomud'' = None"
      and "os_path_join x ''logs'' [''main.log''] \<notin> fs_denied s"
    using that got den [of "''cocomud''"]
    by (cases "logging_loggers s ''cocomud''")
       (simp_all add: create_logger_def resolve_channel_def Let_def logging_FileHandler_def
          Logger_setLevel_def Logger_addHandler_def update_logger_def update_engine_def
          new_Handler_def Handler_setLevel_def Handler_setFormatter_def)
  have refused: "fst (create_logger x self [] f s) =
        Inl (IOError (os_path_join x ''logs'' [''main.log''])) \<and>
      logging_loggers (snd (create_logger x self [] f s)) ''cocomud'' =
        Some \<lparr>l_level = logging_DEBUG,
              l_handlers =
                (case logging_loggers s ''cocomud'' of
                   None \<Rightarrow> []
                 | Some l \<Rightarrow> l_handlers l) @
                [\<lparr>h_kind = Stream, h_level = logging_INFO, h_formatter = None\<rparr>]\<rparr>"
    if "loggers (engines s self) ''cocomud'' = None"
      and "os_path_join x ''logs'' [''main.log''] \<in> fs_denied s"
    using that got den [of "''cocomud''"]
    by (cases "logging_loggers s ''cocomud''")
       (simp_all add: create_logger_def resolve_channel_def Let_def logging_FileHandler_def
          Logger_setLevel_def Logger_addHandler_def update_logger_def
          new_Handler_def Handler_setLevel_def)
  have cached: "\<forall>lg. loggers (engines s self) ''cocomud'' = Some lg \<longrightarrow>
      create_logger x self [] f s = (Inr lg, s)"
    by (simp add: create_logger_def resolve_channel_def)
  from same path created refused cached show ?thesis by blast
qed

theorem create_logger_root_ignores_filename_witness:
  "create_logger ext0 0 [] (Some ''elsewhere.log'') state0 = create_logger ext0 0 [] None state0 \<and>
   fst (resolve_channel ext0 [] (Some ''elsewhere.log'')) = ''logs/main.log'' \<and>
   fst (create_logger ext0 0 [] (Some ''elsewhere.log'') state0) = Inr ''cocomud'' \<and>
   logging_loggers (snd (create_logger ext0 0 [] (Some ''elsewhere.log'') state0)) ''cocomud'' =
     Some \<lparr>l_level = 10,
           l_handlers =
             [\<lparr>h_kind = Stream, h_level = 20, h_formatter = None\<rparr>,
              \<lparr>h_kind = File ''logs/main.log'' ''utf-8'', h_level = 10,
               h_formatter = Some (CustomFormatter
                 ''%(hour)02d:%(minute)02d [%(levelname)s] %(message)s'')\<rparr>]\<rparr>"
proof -
  let ?r = "create_logger ext0 0 [] (Some ''elsewhere.log'') state0"
  note root = create_logger_root_ignores_filename [of ext0 0 "Some ''elsewhere.log''" state0]
  have path: "os_path_join ext0 ''logs'' [''main.log''] = ''logs/main.log''"
    by (simp add: ext0_def)
  have uncached: "loggers (engines state0 0) ''cocomud'' = None"
    by (simp add: state0_def engine0_def)
  have writable: "os_path_join ext0 ''logs'' [''main.log''] \<notin> fs_denied state0"
    by (simp add: path state0_def)
  have bare: "logging_loggers state0 ''cocomud'' = None"
    by (simp add: state0_def)
  from root have same: "?r = create_logger ext0 0 [] None state0"
    by blast
  from root have "fst (resolve_channel ext0 [] (Some ''elsewhere.log'')) =
      os_path_join ext0 ''logs'' [''main.log'']"
    by blast
  then have resolved: "fst (resolve_channel ext0 [] (Some ''elsewhere.log'')) = ''logs/main.log''"
    by (simp add: path)
  from root uncached writable
  have "fst ?r = Inr ''cocomud'' \<and>
      logging_loggers (snd ?r) ''cocomud'' =
        Some \<lparr>l_level = logging_DEBUG,
              l_handlers =
                (case logging_loggers state0 ''cocomud'' of
                   None \<Rightarrow> []
                 | Some l \<Rightarrow> l_handlers l) @
                [\<lparr>h_kind = Stream, h_level = logging_INFO, h_formatter = None\<rparr>,
                 \<lparr>h_kind = File (os_path_join ext0 ''logs'' [''main.log'']) ''utf-8'',
                  h_level = logging_DEBUG,
                  h_formatter = Some (CustomFormatter
                    ''%(hour)02d:%(minute)02d [%(levelname)s] %(message)s'')\<rparr>]\<rparr>"
    by blast
  then have sinks: "fst ?r = Inr ''cocomud'' \<and>
      logging_loggers (snd ?r) ''cocomud'' =
        Some \<lparr>l_level = 10,
              l_handlers =
                [\<lparr>h_kind = Stream, h_level = 20, h_formatter = None\<rparr>,
                 \<lparr>h_kind = File ''logs/main.log'' ''utf-8'', h_level = 10,
                  h_formatter = Some (CustomFormatter
                    ''%(hour)02d:%(minute)02d [%(levelname)s] %(message)s'')\<rparr>]\<rparr>"
    by (simp add: path bare logging_DEBUG_def logging_INFO_def)
  from same resolved sinks show ?thesis by blast
qed

subsection \<open>Opening a world\<close>

lemma open'_construct:
  "open' x self host port world s =
     (case construct x self host port world s of
        (Inl e, s2) \<Rightarrow> (Inl e, s2)
      | (Inr (client, sharp_engine), s2) \<Rightarrow>
          (Inr client,
           update_world world (\<lambda>w. w\<lparr>w_sharp_engine := Some sharp_engine\<rparr>)
             (update_client client (\<lambda>c. c\<lparr>c_sharp_engine := Some sharp_engine\<rparr>)
                (update_world world (\<lambda>w. w\<lparr>w_client := Some client\<rparr>) s2))))"
  by (simp add: open'_def construct_def Let_def split: prod.splits sum.splits)

lemma keeps_wiringD:
  "keeps_wiring f w \<Longrightarrow> f s = (r, s') \<Longrightarrow>
     w_client (world_objs s' w) = w_client (world_objs s w) \<and>
     w_sharp_engine (world_objs s' w) = w_sharp_engine (world_objs s w)"
  unfolding keeps_wiring_def by (metis snd_conv)

lemma keeps_engineD:
  "keeps_engine f e \<Longrightarrow> f s = (r, s') \<Longrightarrow>
     worlds (engines s' e) = worlds (engines s e) \<and>
     settings (engines s' e) = settings (engines s e) \<and>
     level (engines s' e) = level (engines s e)"
  unfolding keeps_engine_def by (metis snd_conv)

lemma construct_wiring:
  assumes "keeps_wiring (GUIClient x host port self world) w"
      and "\<forall>client. keeps_wiring (SharpScript x self client world) w"
  shows "w_client (world_objs (snd (construct x self host port world s)) w) =
           w_client (world_objs s w) \<and>
         w_sharp_engine (world_objs (snd (construct x self host port world s)) w) =
           w_sharp_engine (world_objs s w)"
proof -
  let ?s0 = "Logger_info (logger (engines s self))
               (''Creating a client for '' @ host @ '':'' @ str_int port) s"
  obtain r1 s1 where g: "GUIClient x host port self world ?s0 = (r1, s1)" by fastforce
  have "world_objs ?s0 = world_objs s" by (simp add: Logger_info_def)
  with keeps_wiringD [OF assms(1) g]
  have w1: "w_client (world_objs s1 w) = w_client (world_objs s w) \<and>
        w_sharp_engine (world_objs s1 w) = w_sharp_engine (world_objs s w)"
    by simp
  show ?thesis
  proof (cases r1)
    case (Inl e)
    with g w1 show ?thesis by (simp add: construct_def)
  next
    case (Inr client)
    obtain r2 s2 where h: "SharpScript x self client world s1 = (r2, s2)" by fastforce
    have "keeps_wiring (SharpScript x self client world) w" using assms(2) by simp
    from keeps_wiringD [OF this h] w1
    have "w_client (world_objs s2 w) = w_client (world_objs s w) \<and>
        w_sharp_engine (world_objs s2 w) = w_sharp_engine (world_objs s w)"
      by simp
    with g h Inr show ?thesis by (cases r2) (simp_all add: construct_def)
  qed
qed

lemma construct_engine:
  assumes "keeps_engine (GUIClient x host port self world) e"
      and "\<forall>client. keeps_engine (SharpScript x self client world) e"
  shows "worlds (engines (snd (construct x self host port world s)) e) = worlds (engines s e) \<and>
         settings (engines (snd (construct x self host port world s)) e) =
           settings (engines s e) \<and>
         level (engines (snd (construct x self host port world s)) e) = level (engines s e)"
proof -
  let ?s0 = "Logger_info (logger (engines s self))
               (''Creating a client for '' @ host @ '':'' @ str_int port) s"
  obtain r1 s1 where g: "GUIClient x host port self world ?s0 = (r1, s1)" by fastforce
  have "engines ?s0 = engines s" by (simp add: Logger_info_def)
  with keeps_engineD [OF assms(1) g]
  have e1: "worlds (engines s1 e) = worlds (engines s e) \<and>
     settings (engines s1 e) = settings (engines s e) \<and>
     level (engines s1 e) = level (engines s e)"
    by simp
  show ?thesis
  proof (cases r1)
    case (Inl err)
    with g e1 show ?thesis by (simp add: construct_def)
  next
    case (Inr client)
    obtain r2 s2 where h: "SharpScript x self client world s1 = (r2, s2)" by fastforce
    have "keeps_engine (SharpScript x self client world) e" using assms(2) by simp
    from keeps_engineD [OF this h] e1
    have "worlds (engines s2 e) = worlds (engines s e) \<and>
     settings (engines s2 e) = settings (engines s e) \<and>
     level (engines s2 e) = level (engines s e)"
      by simp
    with g h Inr show ?thesis by (cases r2) (simp_all add: construct_def)
  qed
qed

lemma ext0_keeps_wiring:
  "keeps_wiring (GUIClient ext0 host port self world) w"
  "keeps_wiring (SharpScript ext0 self client world) w"
  by (simp_all add: keeps_wiring_def ext0_def update_client_def)

lemma ext_sharp_raises_keeps_wiring:
  "keeps_wiring (GUIClient ext_sharp_raises host port self world) w"
  "keeps_wiring (SharpScript ext_sharp_raises self client world) w"
  by (simp_all add: keeps_wiring_def ext_sharp_raises_def ext0_def update_client_def)

lemma ext0_keeps_engine:
  "keeps_engine (GUIClient ext0 host port self world) e"
  "keeps_engine (SharpScript ext0 self client world) e"
  by (simp_all add: keeps_engine_def ext0_def update_client_def)

lemma state1_wiring:
  "w_client (world_objs state1 1) = Some 11" "w_sharp_engine (world_objs state1 1) = Some 21"
  by (simp_all add: state1_def open'_def Let_def ext0_def update_world_def update_client_def
        Logger_info_def)

text \<open>
  C1. Let the two constructors leave the \<open>client\<close> and \<open>sharp_engine\<close> attributes of the
  world alone, and let both attributes be unset before \<open>open\<close> is called. If the construction
  of the client or of the scripting engine raises \<open>e\<close>, then \<open>open\<close> raises \<open>e\<close> and
  both attributes are still unset in the store it leaves behind.
\<close>

theorem open_failure_leaves_world_unset:
  assumes "keeps_wiring (GUIClient x host port self world) world"
      and "\<forall>client. keeps_wiring (SharpScript x self client world) world"
      and "w_client (world_objs s world) = None"
      and "w_sharp_engine (world_objs s world) = None"
      and "fst (construct x self host port world s) = Inl e"
  shows "fst (open' x self host port world s) = Inl e \<and>
         w_client (world_objs (snd (open' x self host port world s)) world) = None \<and>
         w_sharp_engine (world_objs (snd (open' x self host port world s)) world) = None"
proof -
  obtain s2 where c: "construct x self host port world s = (Inl e, s2)"
    using assms(5) by (cases "construct x self host port world s") simp
  have "open' x self host port world s = (Inl e, s2)"
    by (simp add: open'_construct c)
  with construct_wiring [OF assms(1,2), of s] c assms(3,4) show ?thesis by simp
qed

theorem open_failure_leaves_world_unset_witness:
  "fst (construct ext_sharp_raises 0 ''host'' 4000 1 state0) = Inl (Exception ''SharpScript'') \<and>
   fst (open' ext_sharp_raises 0 ''host'' 4000 1 state0) = Inl (Exception ''SharpScript'') \<and>
   w_client (world_objs (snd (open' ext_sharp_raises 0 ''host'' 4000 1 state0)) 1) = None \<and>
   w_sharp_engine (world_objs (snd (open' ext_sharp_raises 0 ''host'' 4000 1 state0)) 1) = None"
proof -
  have k: "\<forall>client. keeps_wiring (SharpScript ext_sharp_raises 0 client 1) 1"
    by (simp add: ext_sharp_raises_keeps_wiring)
  have u: "w_client (world_objs state0 1) = None" "w_sharp_engine (world_objs state0 1) = None"
    by (simp_all add: state0_def)
  have r: "fst (construct ext_sharp_raises 0 ''host'' 4000 1 state0) =
             Inl (Exception ''SharpScript'')"
    by (simp add: construct_def ext_sharp_raises_def ext0_def)
  from open_failure_leaves_world_unset [OF ext_sharp_raises_keeps_wiring(1) k u r] r
  show ?thesis by simp
qed

text \<open>
  C3. When \<open>open\<close> returns a client, that client is the handle that the constructor
  \<open>GUIClient\<close> returned, and with the handle that \<open>SharpScript\<close> returned for it the store
  holds: \<open>world.client\<close> is the client, \<open>world.sharp_engine\<close> is the scripting engine,
  and \<open>client.sharp_engine\<close> is that same scripting engine.
\<close>

theorem open_success_wires_world:
  assumes "open' x self host port world s = (Inr client, s')"
  shows "\<exists>sharp_engine.
           fst (construct x self host port world s) = Inr (client, sharp_engine) \<and>
           w_client (world_objs s' world) = Some client \<and>
           w_sharp_engine (world_objs s' world) = Some sharp_engine \<and>
           c_sharp_engine (client_objs s' client) = Some sharp_engine"
  using assms
  by (auto simp: open'_construct update_world_def update_client_def
           split: prod.splits sum.splits)

theorem open_success_wires_world_witness:
  "fst (open' ext0 0 ''mud.example.org'' 4000 1 state0) = Inr 11 \<and>
   w_client (world_objs (snd (open' ext0 0 ''mud.example.org'' 4000 1 state0)) 1) = Some 11 \<and>
   w_sharp_engine (world_objs (snd (open' ext0 0 ''mud.example.org'' 4000 1 state0)) 1) =
     Some 21 \<and>
   c_sharp_engine (client_objs (snd (open' ext0 0 ''mud.example.org'' 4000 1 state0)) 11) =
     Some 21"
proof -
  have a: "fst (open' ext0 0 ''mud.example.org'' 4000 1 state0) = Inr 11"
    by (simp add: open'_def Let_def ext0_def)
  then have h: "open' ext0 0 ''mud.example.org'' 4000 1 state0 =
      (Inr 11, snd (open' ext0 0 ''mud.example.org'' 4000 1 state0))"
    by (simp add: prod_eq_iff)
  have c: "fst (construct ext0 0 ''mud.example.org'' 4000 1 state0) = Inr (11, 21)"
    by (simp add: construct_def ext0_def)
  from open_success_wires_world [OF h] c a show ?thesis by auto
qed

text \<open>
  C8. Let \<open>world1\<close> and \<open>world2\<close> be two different worlds, and let the two constructors
  leave alone the \<open>client\<close> and \<open>sharp_engine\<close> attributes of \<open>world1\<close> and the world
  dictionary, the settings and the level of the engine. Then \<open>open\<close> for \<open>world2\<close>,
  whether it returns or raises, leaves all of these as they were.
\<close>

theorem open_frame:
  assumes "world1 \<noteq> world2"
      and "keeps_wiring (GUIClient x host port self world2) world1"
      and "\<forall>client. keeps_wiring (SharpScript x self client world2) world1"
      and "keeps_engine (GUIClient x host port self world2) self"
      and "\<forall>client. keeps_engine (SharpScript x self client world2) self"
  shows "w_client (world_objs (snd (open' x self host port world2 s)) world1) =
           w_client (world_objs s world1) \<and>
         w_sharp_engine (world_objs (snd (open' x self host port world2 s)) world1) =
           w_sharp_engine (world_objs s world1) \<and>
         worlds (engines (snd (open' x self host port world2 s)) self) =
           worlds (engines s self) \<and>
         settings (engines (snd (open' x self host port world2 s)) self) =
           settings (engines s self) \<and>
         level (engines (snd (open' x self host port world2 s)) self) = level (engines s self)"
proof -
  obtain r s2 where c: "construct x self host port world2 s = (r, s2)" by fastforce
  from construct_wiring [OF assms(2,3), of s] construct_engine [OF assms(4,5), of s] c assms(1)
  show ?thesis
    by (cases r) (auto simp: open'_construct update_world_def update_client_def)
qed

theorem open_frame_witness:
  "fst (open' ext0 0 ''mud.example.org'' 4000 2 state1) = Inr 12 \<and>
   w_client (world_objs (snd (open' ext0 0 ''mud.example.org'' 4000 2 state1)) 1) = Some 11 \<and>
   w_sharp_engine (world_objs (snd (open' ext0 0 ''mud.example.org'' 4000 2 state1)) 1) =
     Some 21 \<and>
   worlds (engines (snd (open' ext0 0 ''mud.example.org'' 4000 2 state1)) 0) =
     worlds (engines state1 0) \<and>
   settings (engines (snd (open' ext0 0 ''mud.example.org'' 4000 2 state1)) 0) =
     settings (engines state1 0) \<and>
   level (engines (snd (open' ext0 0 ''mud.example.org'' 4000 2 state1)) 0) =
     level (engines state1 0)"
proof -
  have d: "(1::nat) \<noteq> 2" by simp
  have k: "\<forall>client. keeps_wiring (SharpScript ext0 0 client 2) 1"
    by (simp add: ext0_keeps_wiring)
  have e: "\<forall>client. keeps_engine (SharpScript ext0 0 client 2) 0"
    by (simp add: ext0_keeps_engine)
  have a: "fst (open' ext0 0 ''mud.example.org'' 4000 2 state1) = Inr 12"
    by (simp add: open'_def Let_def ext0_def)
  from open_frame [OF d ext0_keeps_wiring(1) k ext0_keeps_engine(1) e, of "''mud.example.org''" 4000 state1]
       state1_wiring a
  show ?thesis by simp
qed

subsection \<open>Loading the configuration\<close>

lemma foldl_set_engine_engines:
  "engines (foldl (set_engine self) s ws) = engines s"
  by (induction ws arbitrary: s) (simp_all add: set_engine_def update_world_def)

lemma foldl_set_engine_kept:
  "w_engine (world_objs s w) = Some self \<Longrightarrow>
   w_engine (world_objs (foldl (set_engine self) s ws) w) = Some self"
  by (induction ws arbitrary: s) (simp_all add: set_engine_def update_world_def)

lemma foldl_set_engine_member:
  "w \<in> set ws \<Longrightarrow> w_engine (world_objs (foldl (set_engine self) s ws) w) = Some self"
proof (induction ws arbitrary: s)
  case Nil
  then show ?case by simp
next
  case (Cons a ws)
  show ?case
  proof (cases "w = a")
    case True
    then have "w_engine (world_objs (set_engine self s a) w) = Some self"
      by (simp add: set_engine_def update_world_def)
    then show ?thesis by (simp add: foldl_set_engine_kept)
  next
    case False
    with Cons show ?thesis by simp
  qed
qed

lemma load_settings0:
  "load_settings ext0 0 s =
     (Inr (), Logger_info (logger (engines s 0)) ''Loading the user's configuration...'' s)"
  by (simp add: load_settings_def ext0_def)

text \<open>
  C7. When \<open>load\<close> returns, \<open>self.settings.load()\<close> has been called and has returned, the
  two lookups \<open>options.TTS.on\<close> and \<open>options.TTS.outside\<close> in the settings it left have
  succeeded, the engine differs from the engine that \<open>self.settings.load()\<close> left in the
  attributes \<open>TTS_on\<close> and \<open>TTS_outside\<close> only, which hold the two values, and every world
  of the world dictionary has the engine as its \<open>engine\<close> attribute.
\<close>

theorem load_success:
  assumes "load x self s = (Inr (), s')"
  shows "\<exists>s1 on outside.
           load_settings x self s = (Inr (), s1) \<and>
           Settings_get (settings (engines s1 self)) ''options.TTS.on'' = Inr on \<and>
           Settings_get (settings (engines s1 self)) ''options.TTS.outside'' = Inr outside \<and>
           engines s' self =
             (engines s1 self)\<lparr>TTS_on := Some on, TTS_outside := Some outside\<rparr> \<and>
           (\<forall>w \<in> snd ` set (worlds (engines s' self)).
              w_engine (world_objs s' w) = Some self)"
proof -
  obtain r s1 where l: "load_settings x self s = (r, s1)" by fastforce
  then have l': "Settings_load x self
       (Logger_info (logger (engines s self)) ''Loading the user's configuration...'' s) = (r, s1)"
    by (simp add: load_settings_def)
  from assms l' have r: "r = Inr ()"
    by (cases r) (simp_all add: load_def)
  from assms l' r obtain on where
    on: "Settings_get (settings (engines s1 self)) ''options.TTS.on'' = Inr on"
    by (cases "Settings_get (settings (engines s1 self)) ''options.TTS.on''")
       (simp_all add: load_def)
  let ?s2 = "update_engine self (\<lambda>e. e\<lparr>TTS_on := Some on\<rparr>) s1"
  have set2: "settings (engines ?s2 self) = settings (engines s1 self)"
    by (simp add: update_engine_def)
  from assms l' r on set2 obtain outside where
    out: "Settings_get (settings (engines s1 self)) ''options.TTS.outside'' = Inr outside"
    by (cases "Settings_get (settings (engines s1 self)) ''options.TTS.outside''")
       (simp_all add: load_def Let_def)
  let ?s3 = "update_engine self (\<lambda>e. e\<lparr>TTS_outside := Some outside\<rparr>) ?s2"
  have s': "s' = foldl (set_engine self) ?s3 (map snd (worlds (engines ?s3 self)))"
    using assms l' r on out set2 by (simp add: load_def Let_def)
  have e: "engines s' self =
      (engines s1 self)\<lparr>TTS_on := Some on, TTS_outside := Some outside\<rparr>"
    by (simp add: s' foldl_set_engine_engines update_engine_def)
  have e3: "engines s' = engines ?s3"
    by (simp add: s' foldl_set_engine_engines)
  have "\<forall>w \<in> snd ` set (worlds (engines s' self)). w_engine (world_objs s' w) = Some self"
  proof
    fix w assume "w \<in> snd ` set (worlds (engines s' self))"
    then have "w \<in> set (map snd (worlds (engines ?s3 self)))" by (simp add: e3)
    then show "w_engine (world_objs s' w) = Some self"
      unfolding s' by (rule foldl_set_engine_member)
  qed
  with l r on out e show ?thesis by simp
qed

theorem load_success_witness:
  "fst (load ext0 0 state0) = Inr () \<and>
   TTS_on (engines (snd (load ext0 0 state0)) 0) = Some (PyBool True) \<and>
   TTS_outside (engines (snd (load ext0 0 state0)) 0) = Some (PyBool False) \<and>
   worlds (engines (snd (load ext0 0 state0)) 0) = [(''vanciamud'', 1), (''coco'', 2)] \<and>
   w_engine (world_objs (snd (load ext0 0 state0)) 1) = Some 0 \<and>
   w_engine (world_objs (snd (load ext0 0 state0)) 2) = Some 0"
proof -
  let ?s' = "snd (load ext0 0 state0)"
  have get: "Settings_get (settings engine0) ''options.TTS.on'' = Inr (PyBool True)"
    "Settings_get (settings engine0) ''options.TTS.outside'' = Inr (PyBool False)"
    by (simp_all add: Settings_get_def levels_by_specificity_def engine0_def)
  have eng: "engines (Logger_info lg msg state0) 0 = engine0" for lg msg
    by (simp add: Logger_info_def state0_def)
  have a: "fst (load ext0 0 state0) = Inr ()"
    by (simp add: load_def Let_def ext0_def eng get update_engine_def)
  then have h: "load ext0 0 state0 = (Inr (), ?s')"
    by (simp add: prod_eq_iff)
  from load_success [OF h] obtain s1 on outside where
    s1: "load_settings ext0 0 state0 = (Inr (), s1)" and
    on: "Settings_get (settings (engines s1 0)) ''options.TTS.on'' = Inr on" and
    out: "Settings_get (settings (engines s1 0)) ''options.TTS.outside'' = Inr outside" and
    e: "engines ?s' 0 = (engines s1 0)\<lparr>TTS_on := Some on, TTS_outside := Some outside\<rparr>" and
    w: "\<forall>w \<in> snd ` set (worlds (engines ?s' 0)). w_engine (world_objs ?s' w) = Some 0"
    by blast
  from s1 have "engines s1 0 = engine0"
    by (auto simp: load_settings0 eng)
  with on out e get have e': "engines ?s' 0 =
      engine0\<lparr>TTS_on := Some (PyBool True), TTS_outside := Some (PyBool False)\<rparr>"
    by simp
  then have ws: "worlds (engines ?s' 0) = [(''vanciamud'', 1), (''coco'', 2)]"
    by (simp add: engine0_def)
  with w have "w_engine (world_objs ?s' 1) = Some 0" "w_engine (world_objs ?s' 2) = Some 0"
    by simp_all
  with a e' ws show ?thesis by simp
qed

text \<open>
  C10. When \<open>self.settings.load()\<close> has returned and the lookup of \<open>options.TTS.on\<close>
  raises \<open>e\<close>, or that lookup succeeds and the lookup of \<open>options.TTS.outside\<close> raises
  \<open>e\<close>, then \<open>load\<close> raises \<open>e\<close>, and every world object is as \<open>self.settings.load()\<close>
  left it: the loop over the worlds has assigned nothing.
\<close>

theorem load_lookup_failure:
  assumes "load_settings x self s = (Inr (), s1)"
      and "Settings_get (settings (engines s1 self)) ''options.TTS.on'' = Inl e \<or>
           (\<exists>on. Settings_get (settings (engines s1 self)) ''options.TTS.on'' = Inr on) \<and>
           Settings_get (settings (engines s1 self)) ''options.TTS.outside'' = Inl e"
  shows "fst (load x self s) = Inl e \<and> world_objs (snd (load x self s)) = world_objs s1"
  using assms
  by (auto simp: load_def load_settings_def Let_def update_engine_def)

theorem load_lookup_failure_witness:
  "fst (load ext0 0 state_undeclared) = Inl (KeyError ''options.TTS.outside'') \<and>
   world_objs (snd (load ext0 0 state_undeclared)) = world_objs state_undeclared \<and>
   w_engine (world_objs (snd (load ext0 0 state_undeclared)) 1) = None"
proof -
  let ?s1 = "Logger_info (logger (engines state_undeclared 0))
               ''Loading the user's configuration...'' state_undeclared"
  have st: "settings (engines ?s1 0) =
      \<lparr>layers = (\<lambda>_. Map.empty), defaults = [''options.TTS.on'' \<mapsto> PyBool True]\<rparr>"
    by (simp add: Logger_info_def state_undeclared_def update_engine_def)
  have g: "Settings_get (settings (engines ?s1 0)) ''options.TTS.on'' =
             Inl (KeyError ''options.TTS.outside'') \<or>
           (\<exists>on. Settings_get (settings (engines ?s1 0)) ''options.TTS.on'' = Inr on) \<and>
           Settings_get (settings (engines ?s1 0)) ''options.TTS.outside'' =
             Inl (KeyError ''options.TTS.outside'')"
    by (simp add: st Settings_get_def levels_by_specificity_def)
  have w: "world_objs ?s1 = world_objs state_undeclared"
    "w_engine (world_objs state_undeclared 1) = None"
    by (simp_all add: Logger_info_def state_undeclared_def update_engine_def state0_def)
  from load_lookup_failure [OF load_settings0 g] w show ?thesis by simp
qed

subsection \<open>The help files\<close>

text \<open>
  C4. Let \<open>lang\<close> be the language of the settings. If the file
  \<open>os.path.join("doc", lang, name + ".html")\<close> exists, \<open>open_help\<close> logs at level \<open>DEBUG\<close>
  and hands that file to \<open>os.startfile\<close>. Otherwise, if
  \<open>os.path.join("doc", "en", name + ".html")\<close> exists, it logs at level \<open>DEBUG\<close> and hands
  this file to \<open>os.startfile\<close>. If neither exists, \<open>open_help\<close> returns without raising,
  and all it changes in the store is one more logging call at level \<open>DEBUG\<close>, whose message
  names \<open>lang\<close> and \<open>en\<close>. In the first two cases the outcome of \<open>open_help\<close> is the
  outcome of \<open>os.startfile\<close>, so \<open>open_help\<close> never raises when \<open>os.startfile\<close> does
  not.
\<close>

theorem open_help_fallback:
  assumes "Settings_get_language x (settings (engines s self)) = Inr lang"
  shows "(os_path_exists (os_path_join x ''doc'' [lang, name @ ''.html'']) s \<longrightarrow>
            open_help x self name s =
              os_startfile x (os_path_join x ''doc'' [lang, name @ ''.html''])
                (Logger_debug (logger (engines s self))
                   (''Open the help file for '' @ name @ '' (lang='' @ lang @ '')'') s)) \<and>
         (\<not> os_path_exists (os_path_join x ''doc'' [lang, name @ ''.html'']) s \<and>
          os_path_exists (os_path_join x ''doc'' [''en'', name @ ''.html'']) s \<longrightarrow>
            open_help x self name s =
              os_startfile x (os_path_join x ''doc'' [''en'', name @ ''.html''])
                (Logger_debug (logger (engines s self))
                   (''Open the help file for '' @ name @ '' (lang=en)'') s)) \<and>
         (\<not> os_path_exists (os_path_join x ''doc'' [lang, name @ ''.html'']) s \<and>
          \<not> os_path_exists (os_path_join x ''doc'' [''en'', name @ ''.html'']) s \<longrightarrow>
            open_help x self name s =
              (Inr (),
               s\<lparr>log_calls := log_calls s @
                    [(logger (engines s self), logging_DEBUG,
                      ''The documentation for the '' @ name @
                      '' help file cannot be found, either using lang='' @ lang @
                      '' or lang=en'')]\<rparr>)) \<and>
         ((\<forall>path s'. fst (os_startfile x path s') = Inr ()) \<longrightarrow>
            fst (open_help x self name s) = Inr ())"
  using assms by (simp add: open_help_def Let_def Logger_debug_def)

theorem open_help_fallback_witness:
  "open_help ext0 0 ''macros'' state0 =
     (Inr (),
      state0\<lparr>log_calls := [(''cocomud'', 10, ''Open the help file for macros (lang=en)'')],
             started_files := [''doc/en/macros.html'']\<rparr>) \<and>
   open_help ext0 0 ''aliases'' state0 =
     (Inr (),
      state0\<lparr>log_calls :=
               [(''cocomud'', 10,
                 ''The documentation for the aliases help file cannot be found, either using lang=fr or lang=en'')]\<rparr>)"
proof -
  have l: "Settings_get_language ext0 (settings (engines state0 0)) = Inr ''fr''"
    by (simp add: ext0_def)
  from open_help_fallback [OF l, of "''macros''"] open_help_fallback [OF l, of "''aliases''"]
  show ?thesis
    by (simp add: ext0_def state0_def engine0_def os_path_exists_def Logger_debug_def
          logging_DEBUG_def)
qed

subsection \<open>The precedence of the levels\<close>

text \<open>
  C6. The values of \<open>Level\<close> increase from \<open>engine\<close> over \<open>world\<close> and \<open>character\<close> to
  \<open>category\<close>. The lookup returns the value of a level that defines the key whenever no
  level of a greater value defines it; when no level defines the key, it returns the declared
  default, and raises \<open>KeyError\<close> when there is none.
\<close>

theorem Settings_get_precedence:
  "Level_value Level_engine < Level_value Level_world \<and>
   Level_value Level_world < Level_value Level_character \<and>
   Level_value Level_character < Level_value Level_category \<and>
   (\<forall>l v. layers st l key = Some v \<and>
          (\<forall>l'. Level_value l < Level_value l' \<longrightarrow> layers st l' key = None)
          \<longrightarrow> Settings_get st key = Inr v) \<and>
   ((\<forall>l. layers st l key = None) \<longrightarrow>
      (\<forall>v. defaults st key = Some v \<longrightarrow> Settings_get st key = Inr v) \<and>
      (defaults st key = None \<longrightarrow> Settings_get st key = Inl (KeyError key)))"
proof -
  have "Settings_get st key = Inr v"
    if d: "layers st l key = Some v"
      and m: "\<forall>l'. Level_value l < Level_value l' \<longrightarrow> layers st l' key = None" for l v
  proof (cases l)
    case Level_engine
    with m have "layers st Level_category key = None" "layers st Level_character key = None"
      "layers st Level_world key = None" by simp_all
    with d Level_engine show ?thesis
      by (simp add: Settings_get_def levels_by_specificity_def)
  next
    case Level_world
    with m have "layers st Level_category key = None" "layers st Level_character key = None"
      by simp_all
    with d Level_world show ?thesis
      by (simp add: Settings_get_def levels_by_specificity_def)
  next
    case Level_character
    with m have "layers st Level_category key = None" by simp
    with d Level_character show ?thesis
      by (simp add: Settings_get_def levels_by_specificity_def)
  next
    case Level_category
    with d show ?thesis
      by (simp add: Settings_get_def levels_by_specificity_def)
  qed
  then have most_specific:
    "\<forall>l v. layers st l key = Some v \<and>
          (\<forall>l'. Level_value l < Level_value l' \<longrightarrow> layers st l' key = None)
          \<longrightarrow> Settings_get st key = Inr v"
    by blast
  have fallback: "(\<forall>l. layers st l key = None) \<longrightarrow>
      (\<forall>v. defaults st key = Some v \<longrightarrow> Settings_get st key = Inr v) \<and>
      (defaults st key = None \<longrightarrow> Settings_get st key = Inl (KeyError key))"
    by (simp add: Settings_get_def levels_by_specificity_def)
  have "Level_value Level_engine < Level_value Level_world \<and>
   Level_value Level_world < Level_value Level_character \<and>
   Level_value Level_character < Level_value Level_category"
    by simp
  with most_specific fallback show ?thesis by blast
qed

theorem Settings_get_precedence_witness:
  "Settings_get settings_abc ''key'' = Inr (PyStr ''C'') \<and>
   Settings_get settings_abc ''nonexistent.key'' = Inl (KeyError ''nonexistent.key'')"
proof -
  have c: "layers settings_abc Level_character ''key'' = Some (PyStr ''C'')"
    by (simp add: settings_abc_def)
  have above: "\<forall>l'. Level_value Level_character < Level_value l' \<longrightarrow>
                 layers settings_abc l' ''key'' = None"
  proof
    fix l' show "Level_value Level_character < Level_value l' \<longrightarrow>
                 layers settings_abc l' ''key'' = None"
      by (cases l') (simp_all add: settings_abc_def)
  qed
  have none: "\<forall>l. layers settings_abc l ''nonexistent.key'' = None"
  proof
    fix l show "layers settings_abc l ''nonexistent.key'' = None"
      by (cases l) (simp_all add: settings_abc_def)
  qed
  have nodefault: "defaults settings_abc ''nonexistent.key'' = None"
    by (simp add: settings_abc_def)
  from Settings_get_precedence [of settings_abc "''key''"] c above
  have first: "Settings_get settings_abc ''key'' = Inr (PyStr ''C'')" by blast
  from Settings_get_precedence [of settings_abc "''nonexistent.key''"] none nodefault
  have "Settings_get settings_abc ''nonexistent.key'' = Inl (KeyError ''nonexistent.key'')"
    by blast
  with first show ?thesis by simp
qed

end
